theory Spec2Isabelle
  imports Main "HOL-Library.Word"
begin

section \<open>Data model\<close>

text \<open>
  The mesh radio driver of codal-microbit-v2 (\<^verbatim>\<open>MicroBitMeshRadio\<close>) and its datagram
  service (\<^verbatim>\<open>MicroBitMeshRadioDatagram\<close>), embedded as state-passing functions.

  \<^item> A \<^verbatim>\<open>uint8_t\<close> is an \<open>8 word\<close>; a C \<^verbatim>\<open>int\<close> is an \<open>int\<close> (the only arithmetic the
    driver does on them is \<^verbatim>\<open>len + 3\<close>, \<^verbatim>\<open>length - 3\<close>, \<^verbatim>\<open>currentSeqNo++\<close> and a negation,
    none of which is near the 32-bit limits on the inputs considered here).
  \<^item> A pointer to a heap frame is an address together with the frame stored there; the
    \<^verbatim>\<open>next\<close> linkage of a queue is the order of a list of such pairs; \<^verbatim>\<open>NULL\<close> is \<open>None\<close>
    (or the empty list for a queue head).
  \<^item> What \<^verbatim>\<open>new\<close> returns and whether the BLE stack runs are inputs of the operations.
  \<^item> \<^verbatim>\<open>delete\<close> and \<^verbatim>\<open>Event(...)\<close> are recorded in two logs carried by the state.
\<close>

type_synonym addr = nat
type_synonym uint8 = "8 word"

datatype retcode =
  DEVICE_OK | DEVICE_INVALID_PARAMETER | DEVICE_NOT_SUPPORTED | DEVICE_NO_RESOURCES

text \<open>
  How a call ends: it returns; or it runs into undefined behaviour (a \<^verbatim>\<open>NULL\<close>
  dereference, a copy outside an array); or it waits in a loop that nothing in the
  sequential program ends.
\<close>

datatype 'a outcome = Returns 'a | Fault | Spins

text \<open>
  Macros that the sources use but that are defined outside the files at hand
  (\<^verbatim>\<open>MicroBitRadio.h\<close>, \<^verbatim>\<open>MicroBitConfig.h\<close>, \<^verbatim>\<open>ErrorNo.h\<close>): they are parameters of the model.
  \<open>errno\<close> gives the integer value of a return code where the code stores one in an
  \<^verbatim>\<open>int\<close>.
\<close>

record config =
  MICROBIT_RADIO_MAX_PACKET_SIZE :: nat
  MICROBIT_RADIO_HEADER_SIZE :: nat
  MICROBIT_RADIO_MAXIMUM_RX_BUFFERS :: nat
  errno :: "retcode \<Rightarrow> int"

text \<open>Macros of \<^verbatim>\<open>MicroBitMeshRadio.h\<close>.\<close>

definition MICROBIT_MESH_RADIO_DEFAULT_GROUP :: uint8 where
  "MICROBIT_MESH_RADIO_DEFAULT_GROUP = 0"

definition MICROBIT_MESH_RADIO_DEFAULT_TX_POWER :: uint8 where
  "MICROBIT_MESH_RADIO_DEFAULT_TX_POWER = 6"

definition MICROBIT_MESH_RADIO_DEFAULT_FREQUENCY :: uint8 where
  "MICROBIT_MESH_RADIO_DEFAULT_FREQUENCY = 8"

definition MICROBIT_MESH_RADIO_HEADER_SIZE :: int where
  "MICROBIT_MESH_RADIO_HEADER_SIZE = 4"

definition MICROBIT_MESH_RADIO_MAXIMUM_RX_BUFFERS :: int where
  "MICROBIT_MESH_RADIO_MAXIMUM_RX_BUFFERS = 4"

definition MICROBIT_MESH_RADIO_PROTOCOL_DATAGRAM :: uint8 where
  "MICROBIT_MESH_RADIO_PROTOCOL_DATAGRAM = 1"


text \<open>
  \<^verbatim>\<open>struct SequencedFrameBuffer\<close>. The five header bytes, the payload array of
  \<^verbatim>\<open>MICROBIT_RADIO_MAX_PACKET_SIZE\<close> bytes and the signal strength; the \<^verbatim>\<open>next\<close> field is
  the list structure of the queue that holds the frame.
\<close>

record SequencedFrameBuffer =
  fb_length :: uint8
  fb_version :: uint8
  fb_group :: uint8
  fb_protocol :: uint8
  fb_seqNo :: uint8
  fb_payload :: "uint8 list"
  fb_rssi :: int

type_synonym frame_ptr = "addr \<times> SequencedFrameBuffer"

text \<open>\<^verbatim>\<open>new SequencedFrameBuffer()\<close> value-initialises the structure: every byte is zero.\<close>

definition new_SequencedFrameBuffer :: "config \<Rightarrow> SequencedFrameBuffer" where
  "new_SequencedFrameBuffer cfg =
     \<lparr>fb_length = 0, fb_version = 0, fb_group = 0, fb_protocol = 0, fb_seqNo = 0,
      fb_payload = replicate (MICROBIT_RADIO_MAX_PACKET_SIZE cfg) 0, fb_rssi = 0\<rparr>"

text \<open>Events raised through \<^verbatim>\<open>Event(source, value)\<close>.\<close>

datatype event =
  RADIO_DATA_READY uint8   \<comment> \<open>\<^verbatim>\<open>Event(DEVICE_ID_RADIO_DATA_READY, p->protocol)\<close>\<close>
| RADIO_EVT_DATAGRAM       \<comment> \<open>\<^verbatim>\<open>Event(DEVICE_ID_RADIO, MICROBIT_MESH_RADIO_EVT_DATAGRAM)\<close>\<close>

text \<open>
  \<^verbatim>\<open>class MicroBitMeshRadio\<close> with its \<^verbatim>\<open>datagram\<close> member. The two status bits that the
  driver tests are two booleans. \<open>events\<close> and \<open>deleted\<close> log the events raised and the
  pointers handed to \<^verbatim>\<open>delete\<close>, oldest first.
\<close>

record MicroBitMeshRadio =
  status_INITIALISED :: bool
  status_IDLE_TICK :: bool
  band :: uint8
  txpower :: uint8
  group :: uint8
  queueDepth :: uint8
  rssi :: int
  rxQueue :: "frame_ptr list"
  rxBuf :: "frame_ptr option"
  blockTransmit :: bool
  currentSeqNo :: int
  datagram_rxQueue :: "frame_ptr list"
  events :: "event list"
  deleted :: "addr list"

section \<open>The radio driver\<close>

text \<open>The constructor.\<close>

definition MicroBitMeshRadio_new :: MicroBitMeshRadio where
  "MicroBitMeshRadio_new =
     \<lparr>status_INITIALISED = False, status_IDLE_TICK = False,
      band = MICROBIT_MESH_RADIO_DEFAULT_FREQUENCY,
      txpower = MICROBIT_MESH_RADIO_DEFAULT_TX_POWER,
      group = MICROBIT_MESH_RADIO_DEFAULT_GROUP,
      queueDepth = 0, rssi = 0, rxQueue = [], rxBuf = None,
      blockTransmit = False, currentSeqNo = 0,
      datagram_rxQueue = [], events = [], deleted = []\<rparr>"

definition getRxBuf :: "MicroBitMeshRadio \<Rightarrow> frame_ptr option" where
  "getRxBuf s = rxBuf s"

definition setRSSI :: "int \<Rightarrow> MicroBitMeshRadio \<Rightarrow> retcode \<times> MicroBitMeshRadio" where
  "setRSSI v s =
     (if \<not> status_INITIALISED s then (DEVICE_NOT_SUPPORTED, s)
      else (DEVICE_OK, s\<lparr>rssi := v\<rparr>))"

definition getRSSI :: "config \<Rightarrow> MicroBitMeshRadio \<Rightarrow> int" where
  "getRSSI cfg s =
     (if \<not> status_INITIALISED s then errno cfg DEVICE_NOT_SUPPORTED else rssi s)"

definition setBlockTransmit :: "bool \<Rightarrow> MicroBitMeshRadio \<Rightarrow> MicroBitMeshRadio" where
  "setBlockTransmit transmit s = s\<lparr>blockTransmit := transmit\<rparr>"

definition setGroup :: "bool \<Rightarrow> uint8 \<Rightarrow> MicroBitMeshRadio \<Rightarrow> retcode \<times> MicroBitMeshRadio" where
  "setGroup ble_running g s =
     (if ble_running then (DEVICE_NOT_SUPPORTED, s)
      else (DEVICE_OK, s\<lparr>group := g\<rparr>))"

text \<open>
  The walk to the last node of a non-empty queue, followed by \<^verbatim>\<open>p->next = b\<close>:
  \<^verbatim>\<open>while (p->next != NULL) p = p->next;\<close>
\<close>

fun link_at_tail :: "'a list \<Rightarrow> 'a \<Rightarrow> 'a list" where
  "link_at_tail [] b = []"
| "link_at_tail [p] b = [p, b]"
| "link_at_tail (p # q # ps) b = p # link_at_tail (q # ps) b"

text \<open>
  \<^verbatim>\<open>queueRxBuf\<close>. \<open>newRxBuf\<close> is what \<^verbatim>\<open>new SequencedFrameBuffer()\<close> returns when it is
  reached (\<open>None\<close>: the allocation fails).
\<close>

definition queueRxBuf ::
  "config \<Rightarrow> addr option \<Rightarrow> MicroBitMeshRadio \<Rightarrow> retcode \<times> MicroBitMeshRadio" where
  "queueRxBuf cfg newRxBuf s =
     (case rxBuf s of
        None \<Rightarrow> (DEVICE_INVALID_PARAMETER, s)
      | Some (a, f) \<Rightarrow>
          if int (MICROBIT_RADIO_MAXIMUM_RX_BUFFERS cfg) \<le> uint (queueDepth s)
          then (DEVICE_NO_RESOURCES, s)
          else
            let f' = f\<lparr>fb_rssi := getRSSI cfg s\<rparr> in
            (case newRxBuf of
               None \<Rightarrow> (DEVICE_NO_RESOURCES, s\<lparr>rxBuf := Some (a, f')\<rparr>)
             | Some b \<Rightarrow>
                 (DEVICE_OK,
                  s\<lparr>rxQueue := (if rxQueue s = [] then [(a, f')]
                                 else link_at_tail (rxQueue s) (a, f')),
                    queueDepth := queueDepth s + 1,
                    rxBuf := Some (b, new_SequencedFrameBuffer cfg)\<rparr>)))"

text \<open>\<^verbatim>\<open>recv\<close>: the head of the queue, or \<^verbatim>\<open>NULL\<close>.\<close>

definition recv :: "MicroBitMeshRadio \<Rightarrow> frame_ptr option \<times> MicroBitMeshRadio" where
  "recv s =
     (case rxQueue s of
        [] \<Rightarrow> (None, s)
      | p # rest \<Rightarrow> (Some p, s\<lparr>rxQueue := rest, queueDepth := queueDepth s - 1\<rparr>))"

definition dataReady :: "MicroBitMeshRadio \<Rightarrow> int" where
  "dataReady s = uint (queueDepth s)"

text \<open>
  \<^verbatim>\<open>enable\<close>, as far as it touches the driver's own state (the peripheral registers are
  not part of the model).
\<close>

definition enable ::
  "config \<Rightarrow> bool \<Rightarrow> addr option \<Rightarrow> MicroBitMeshRadio \<Rightarrow> retcode \<times> MicroBitMeshRadio" where
  "enable cfg ble_running newRxBuf s =
     (if status_INITIALISED s then (DEVICE_OK, s)
      else if ble_running then (DEVICE_NOT_SUPPORTED, s)
      else
        let s1 = (if rxBuf s = None
                  then s\<lparr>rxBuf := map_option (\<lambda>a. (a, new_SequencedFrameBuffer cfg)) newRxBuf\<rparr>
                  else s)
        in if rxBuf s1 = None then (DEVICE_NO_RESOURCES, s1)
           else
             let s2 = snd (setGroup ble_running (group s1) s1)
             in (DEVICE_OK, s2\<lparr>status_IDLE_TICK := True, status_INITIALISED := True\<rparr>))"

definition disable :: "bool \<Rightarrow> MicroBitMeshRadio \<Rightarrow> retcode \<times> MicroBitMeshRadio" where
  "disable ble_running s =
     (if ble_running then (DEVICE_NOT_SUPPORTED, s)
      else if \<not> status_INITIALISED s then (DEVICE_OK, s)
      else (DEVICE_OK, s\<lparr>status_IDLE_TICK := False, status_INITIALISED := False\<rparr>))"

text \<open>
  \<^verbatim>\<open>compareSeqNo\<close>. The comparison reads the sequence number of the active buffer;
  without an active buffer the read dereferences \<^verbatim>\<open>NULL\<close>.
\<close>

definition compareSeqNo :: "int \<Rightarrow> MicroBitMeshRadio \<Rightarrow> (bool \<times> MicroBitMeshRadio) outcome" where
  "compareSeqNo newSeq s =
     (case getRxBuf s of
        None \<Rightarrow> Fault
      | Some (a, f) \<Rightarrow>
          let isGood = (uint (fb_seqNo f) < newSeq)
          in Returns (isGood, if isGood then s\<lparr>currentSeqNo := newSeq\<rparr> else s))"

text \<open>
  \<^verbatim>\<open>send\<close>. \<open>buffer\<close> is the frame the caller points to (\<open>None\<close>: \<^verbatim>\<open>NULL\<close>); the result
  carries the return code, the caller's frame as the call leaves it (this is the frame
  handed to the transmitter when the code is \<open>DEVICE_OK\<close>) and the new state. The waits
  on peripheral events are taken to end; \<^verbatim>\<open>while(this->blockTransmit);\<close> does not end
  when the flag is set, since only an interrupt clears it.
\<close>

definition send ::
  "config \<Rightarrow> bool \<Rightarrow> SequencedFrameBuffer option \<Rightarrow> MicroBitMeshRadio \<Rightarrow>
     (retcode \<times> SequencedFrameBuffer option \<times> MicroBitMeshRadio) outcome" where
  "send cfg ble_running buffer s =
     (if ble_running then Returns (DEVICE_NOT_SUPPORTED, buffer, s)
      else case buffer of
        None \<Rightarrow> Returns (DEVICE_INVALID_PARAMETER, buffer, s)
      | Some f \<Rightarrow>
          if uint (fb_length f) >
               int (MICROBIT_RADIO_MAX_PACKET_SIZE cfg) + int (MICROBIT_RADIO_HEADER_SIZE cfg) - 1
          then Returns (DEVICE_INVALID_PARAMETER, buffer, s)
          else if blockTransmit s then Spins
          else
            let s1 = s\<lparr>currentSeqNo := currentSeqNo s + 1\<rparr>;
                f1 = f\<lparr>fb_seqNo := word_of_int (currentSeqNo s1)\<rparr>
            in Returns (DEVICE_OK, Some f1, s1))"

section \<open>The datagram service\<close>

text \<open>
  \<^verbatim>\<open>memcpy(dst, src, n)\<close> on two byte regions: the first \<open>n\<close> bytes of \<open>dst\<close> are replaced
  by those of \<open>src\<close>. A count that is negative (as a \<^verbatim>\<open>size_t\<close> it exceeds every region)
  or larger than one of the regions makes the copy run outside them: \<open>None\<close>.
\<close>

definition memcpy :: "uint8 list \<Rightarrow> uint8 list \<Rightarrow> int \<Rightarrow> uint8 list option" where
  "memcpy dst src n =
     (if 0 \<le> n \<and> nat n \<le> length src \<and> nat n \<le> length dst
      then Some (take (nat n) src @ drop (nat n) dst)
      else None)"

text \<open>
  \<^verbatim>\<open>MicroBitMeshRadioDatagram::recv(buf, len)\<close>. \<open>buf\<close> is the caller's region (\<open>None\<close>:
  \<^verbatim>\<open>NULL\<close>). A call that returns gives the value returned, the caller's region afterwards
  and the new state. When the copy runs outside the caller's region or the payload array
  the call ends there: \<^verbatim>\<open>delete p\<close> and \<^verbatim>\<open>return l\<close> come after the copy.
\<close>

definition datagram_recv ::
  "uint8 list option \<Rightarrow> int \<Rightarrow> MicroBitMeshRadio \<Rightarrow>
     ((retcode + int) \<times> uint8 list option \<times> MicroBitMeshRadio) outcome" where
  "datagram_recv buf len s =
     (case buf of
        None \<Rightarrow> Returns (Inl DEVICE_INVALID_PARAMETER, buf, s)
      | Some b \<Rightarrow>
          (case datagram_rxQueue s of
             [] \<Rightarrow> Returns (Inl DEVICE_INVALID_PARAMETER, buf, s)
           | (a, p) # rest \<Rightarrow>
               if len < 0 then Returns (Inl DEVICE_INVALID_PARAMETER, buf, s)
               else
                 let l = min len (uint (fb_length p) - (MICROBIT_MESH_RADIO_HEADER_SIZE - 1))
                 in (case memcpy b (fb_payload p) l of
                       None \<Rightarrow> Fault
                     | Some b1 \<Rightarrow>
                         Returns (Inr l, Some b1,
                                  s\<lparr>datagram_rxQueue := rest, deleted := deleted s @ [a]\<rparr>))))"

text \<open>
  The frame that \<^verbatim>\<open>MicroBitMeshRadioDatagram::send(buffer, len)\<close> builds in its local
  \<^verbatim>\<open>buf\<close>. The local is not initialised: \<open>stack\<close> is what the memory holds before.
\<close>

definition datagram_send_frame ::
  "SequencedFrameBuffer \<Rightarrow> uint8 list \<Rightarrow> int \<Rightarrow> SequencedFrameBuffer option" where
  "datagram_send_frame stack buffer len =
     (case memcpy (fb_payload stack) buffer len of
        None \<Rightarrow> None
      | Some bytes \<Rightarrow>
          Some (stack\<lparr>fb_length := word_of_int (len + MICROBIT_MESH_RADIO_HEADER_SIZE - 1),
                      fb_version := 1,
                      fb_group := 0,
                      fb_protocol := MICROBIT_MESH_RADIO_PROTOCOL_DATAGRAM,
                      fb_payload := bytes\<rparr>))"

definition datagram_send ::
  "config \<Rightarrow> bool \<Rightarrow> SequencedFrameBuffer \<Rightarrow> uint8 list option \<Rightarrow> int \<Rightarrow> MicroBitMeshRadio \<Rightarrow>
     (retcode \<times> SequencedFrameBuffer option \<times> MicroBitMeshRadio) outcome" where
  "datagram_send cfg ble_running stack buffer len s =
     (case buffer of
        None \<Rightarrow> Returns (DEVICE_INVALID_PARAMETER, None, s)
      | Some bs \<Rightarrow>
          if len < 0 \<or>
             len > int (MICROBIT_RADIO_MAX_PACKET_SIZE cfg) + MICROBIT_MESH_RADIO_HEADER_SIZE - 1
          then Returns (DEVICE_INVALID_PARAMETER, None, s)
          else (case datagram_send_frame stack bs len of
                  None \<Rightarrow> Fault
                | Some buf \<Rightarrow> send cfg ble_running (Some buf) s))"

text \<open>
  The number of \<^verbatim>\<open>p = p->next\<close> steps from the head of a non-empty queue to its last
  node: the local \<^verbatim>\<open>queueDepth\<close> of \<^verbatim>\<open>packetReceived\<close>.
\<close>

fun hops_to_tail :: "'a list \<Rightarrow> int" where
  "hops_to_tail [] = 0"
| "hops_to_tail [p] = 0"
| "hops_to_tail (p # q # ps) = hops_to_tail (q # ps) + 1"

text \<open>
  \<^verbatim>\<open>MicroBitMeshRadioDatagram::packetReceived\<close>. When the radio's queue is empty,
  \<^verbatim>\<open>radio.recv()\<close> is \<^verbatim>\<open>NULL\<close> and \<^verbatim>\<open>packet->next = NULL\<close> dereferences it.
\<close>

definition datagram_packetReceived :: "MicroBitMeshRadio \<Rightarrow> MicroBitMeshRadio outcome" where
  "datagram_packetReceived s =
     (case recv s of
        (None, s1) \<Rightarrow> Fault
      | (Some packet, s1) \<Rightarrow>
          if datagram_rxQueue s1 = []
          then Returns (s1\<lparr>datagram_rxQueue := [packet],
                           events := events s1 @ [RADIO_EVT_DATAGRAM]\<rparr>)
          else
            let queueDepth = hops_to_tail (datagram_rxQueue s1)
            in if queueDepth \<ge> MICROBIT_MESH_RADIO_MAXIMUM_RX_BUFFERS
               then Returns (s1\<lparr>deleted := deleted s1 @ [fst packet]\<rparr>)
               else Returns (s1\<lparr>datagram_rxQueue := link_at_tail (datagram_rxQueue s1) packet,
                                events := events s1 @ [RADIO_EVT_DATAGRAM]\<rparr>))"

section \<open>Dispatch from the idle task\<close>





section \<open>Interrupt handlers\<close>

text \<open>
  The peripheral's DMA stores the bytes of an incoming frame in the active buffer
  (\<^verbatim>\<open>NRF_RADIO->PACKETPTR\<close>); the \<^verbatim>\<open>rssi\<close> field is not part of the wire format.
\<close>

definition dma_receive :: "SequencedFrameBuffer \<Rightarrow> MicroBitMeshRadio \<Rightarrow> MicroBitMeshRadio" where
  "dma_receive w s =
     (case rxBuf s of
        None \<Rightarrow> s
      | Some (a, f) \<Rightarrow> s\<lparr>rxBuf := Some (a, w\<lparr>fb_rssi := fb_rssi f\<rparr>)\<rparr>)"

text \<open>
  \<^verbatim>\<open>mesh_RADIO_IRQHandler\<close>, as far as it touches the driver's state. The arguments are
  the peripheral registers it reads: \<^verbatim>\<open>EVENTS_END\<close>, \<^verbatim>\<open>CRCSTATUS\<close>, \<^verbatim>\<open>RSSISAMPLE\<close>.
\<close>

definition mesh_RADIO_IRQHandler ::
  "config \<Rightarrow> bool \<Rightarrow> 32 word \<Rightarrow> 32 word \<Rightarrow> addr option \<Rightarrow> MicroBitMeshRadio \<Rightarrow>
     MicroBitMeshRadio outcome" where
  "mesh_RADIO_IRQHandler cfg EVENTS_END CRCSTATUS RSSISAMPLE newRxBuf s =
     (if EVENTS_END then
        (if CRCSTATUS = 1 then
           (case getRxBuf s of
              None \<Rightarrow> Fault
            | Some (a, f) \<Rightarrow>
                (case compareSeqNo (uint (fb_seqNo f)) s of
                   Returns (isGood, s1) \<Rightarrow>
                     if isGood
                     then let s2 = setBlockTransmit True s1;
                              sample = sint RSSISAMPLE
                          in Returns (snd (setRSSI (- sample) s2))
                     else Returns s1
                 | Fault \<Rightarrow> Fault
                 | Spins \<Rightarrow> Spins))
         else
           let s1 = snd (setRSSI 0 s);
               s2 = snd (queueRxBuf cfg newRxBuf s1)
           in Returns (setBlockTransmit False s2))
      else Returns s)"

text \<open>\<^verbatim>\<open>mesh_TIMER0_IRQHandler\<close>; the argument is \<^verbatim>\<open>NRF_TIMER0->EVENTS_COMPARE[0]\<close>.\<close>

definition mesh_TIMER0_IRQHandler ::
  "config \<Rightarrow> bool \<Rightarrow> addr option \<Rightarrow> MicroBitMeshRadio \<Rightarrow> MicroBitMeshRadio" where
  "mesh_TIMER0_IRQHandler cfg EVENTS_COMPARE0 newRxBuf s =
     (if EVENTS_COMPARE0
      then setBlockTransmit False (snd (queueRxBuf cfg newRxBuf s))
      else s)"

section \<open>Runs of the driver\<close>

text \<open>
  The entry points of the driver and of its datagram service, the two interrupt handlers
  and the DMA of the peripheral, each with the inputs it takes from its caller or from
  the environment. A run starts from a state and stops at the first call that does not
  return. (What \<^verbatim>\<open>idleCallback\<close> does to the receive queue is done through \<open>recv\<close> and
  \<open>packetReceived\<close>, which are entry points here.)
\<close>

datatype op =
    Call_enable bool "addr option"
  | Call_disable bool
  | Call_setGroup bool uint8
  | Call_setRSSI int
  | Call_setBlockTransmit bool
  | Call_queueRxBuf "addr option"
  | Call_recv
  | Call_compareSeqNo int
  | Call_send bool "SequencedFrameBuffer option"
  | Call_datagram_recv "uint8 list option" int
  | Call_datagram_send bool SequencedFrameBuffer "uint8 list option" int
  | Call_datagram_packetReceived
  | Dma_receive SequencedFrameBuffer
  | Irq_RADIO bool "32 word" "32 word" "addr option"
  | Irq_TIMER0 bool "addr option"

fun step :: "config \<Rightarrow> op \<Rightarrow> MicroBitMeshRadio \<Rightarrow> MicroBitMeshRadio outcome" where
  "step cfg (Call_enable ble newRxBuf) s = Returns (snd (enable cfg ble newRxBuf s))"
| "step cfg (Call_disable ble) s = Returns (snd (disable ble s))"
| "step cfg (Call_setGroup ble g) s = Returns (snd (setGroup ble g s))"
| "step cfg (Call_setRSSI v) s = Returns (snd (setRSSI v s))"
| "step cfg (Call_setBlockTransmit b) s = Returns (setBlockTransmit b s)"
| "step cfg (Call_queueRxBuf newRxBuf) s = Returns (snd (queueRxBuf cfg newRxBuf s))"
| "step cfg Call_recv s = Returns (snd (recv s))"
| "step cfg (Call_compareSeqNo newSeq) s =
     (case compareSeqNo newSeq s of
        Returns (isGood, s1) \<Rightarrow> Returns s1 | Fault \<Rightarrow> Fault | Spins \<Rightarrow> Spins)"
| "step cfg (Call_send ble buffer) s =
     (case send cfg ble buffer s of
        Returns (r, buffer1, s1) \<Rightarrow> Returns s1 | Fault \<Rightarrow> Fault | Spins \<Rightarrow> Spins)"
| "step cfg (Call_datagram_recv buf len) s =
     (case datagram_recv buf len s of
        Returns (r, buf1, s1) \<Rightarrow> Returns s1 | Fault \<Rightarrow> Fault | Spins \<Rightarrow> Spins)"
| "step cfg (Call_datagram_send ble stack buffer len) s =
     (case datagram_send cfg ble stack buffer len s of
        Returns (r, buf1, s1) \<Rightarrow> Returns s1 | Fault \<Rightarrow> Fault | Spins \<Rightarrow> Spins)"
| "step cfg Call_datagram_packetReceived s = datagram_packetReceived s"
| "step cfg (Dma_receive w) s = Returns (dma_receive w s)"
| "step cfg (Irq_RADIO EVENTS_END CRCSTATUS RSSISAMPLE newRxBuf) s =
     mesh_RADIO_IRQHandler cfg EVENTS_END CRCSTATUS RSSISAMPLE newRxBuf s"
| "step cfg (Irq_TIMER0 EVENTS_COMPARE0 newRxBuf) s =
     Returns (mesh_TIMER0_IRQHandler cfg EVENTS_COMPARE0 newRxBuf s)"

fun run :: "config \<Rightarrow> op list \<Rightarrow> MicroBitMeshRadio \<Rightarrow> MicroBitMeshRadio outcome" where
  "run cfg [] s = Returns s"
| "run cfg (x # xs) s =
     (case step cfg x s of
        Returns s1 \<Rightarrow> run cfg xs s1 | Fault \<Rightarrow> Fault | Spins \<Rightarrow> Spins)"

text \<open>
  The invariant of the receive queue: \<open>queueDepth\<close> counts the queued frames, the bound
  holds, and a non-empty queue comes with an active buffer.
\<close>

definition queue_inv :: "config \<Rightarrow> MicroBitMeshRadio \<Rightarrow> bool" where
  "queue_inv cfg s \<longleftrightarrow>
     queueDepth s = of_nat (length (rxQueue s)) \<and>
     length (rxQueue s) \<le> MICROBIT_RADIO_MAXIMUM_RX_BUFFERS cfg \<and>
     (rxQueue s = [] \<or> rxBuf s \<noteq> None)"

section \<open>Concrete inputs\<close>

text \<open>
  A configuration to evaluate the model on: a payload array of 32 bytes, a header of 4,
  a receive queue of 4 frames.
\<close>

definition example_config :: config where
  "example_config =
     \<lparr>MICROBIT_RADIO_MAX_PACKET_SIZE = 32, MICROBIT_RADIO_HEADER_SIZE = 4,
      MICROBIT_RADIO_MAXIMUM_RX_BUFFERS = 4,
      errno = (\<lambda>r. case r of DEVICE_OK \<Rightarrow> 0 | DEVICE_INVALID_PARAMETER \<Rightarrow> - 1001
                     | DEVICE_NOT_SUPPORTED \<Rightarrow> - 1002 | DEVICE_NO_RESOURCES \<Rightarrow> - 1005)\<rparr>"

text \<open>The radio after the constructor and a successful \<open>enable\<close>; its active buffer is at address 1.\<close>

definition enabled_radio :: MicroBitMeshRadio where
  "enabled_radio = snd (enable example_config False (Some 1) MicroBitMeshRadio_new)"

definition ten_bytes :: "uint8 list" where
  "ten_bytes = [1, 2, 3, 4, 5, 6, 7, 8, 9, 10]"

text \<open>A frame as it arrives on the air: protocol \<open>pr\<close>, sequence number \<open>n\<close>, no payload.\<close>

definition wire_frame :: "uint8 \<Rightarrow> uint8 \<Rightarrow> SequencedFrameBuffer" where
  "wire_frame pr n = (new_SequencedFrameBuffer example_config)
     \<lparr>fb_length := 4, fb_version := 1, fb_protocol := pr, fb_seqNo := n\<rparr>"

definition four_queued :: "op list" where
  "four_queued =
     [Call_enable False (Some 1), Call_queueRxBuf (Some 2), Call_queueRxBuf (Some 3),
      Call_queueRxBuf (Some 4), Call_queueRxBuf (Some 5)]"

definition enqueue_dequeue :: "op list" where
  "enqueue_dequeue =
     [Call_enable False (Some 1), Call_queueRxBuf (Some 2), Call_queueRxBuf (Some 3),
      Call_recv]"

text \<open>
  Five datagram frames arrive one after the other; each is queued by the timer interrupt
  and handed to the datagram service before the next one arrives. Then a sixth.
\<close>

definition five_arrivals :: "op list" where
  "five_arrivals =
     [Call_enable False (Some 1),
      Dma_receive (wire_frame 1 1), Irq_TIMER0 True (Some 2), Call_datagram_packetReceived,
      Dma_receive (wire_frame 1 2), Irq_TIMER0 True (Some 3), Call_datagram_packetReceived,
      Dma_receive (wire_frame 1 3), Irq_TIMER0 True (Some 4), Call_datagram_packetReceived,
      Dma_receive (wire_frame 1 4), Irq_TIMER0 True (Some 5), Call_datagram_packetReceived,
      Dma_receive (wire_frame 1 5), Irq_TIMER0 True (Some 6), Call_datagram_packetReceived]"

definition sixth_arrival :: "op list" where
  "sixth_arrival =
     [Dma_receive (wire_frame 1 6), Irq_TIMER0 True (Some 7), Call_datagram_packetReceived]"




section \<open>The receive queue and its depth counter\<close>

lemma link_at_tail_append: "q \<noteq> [] \<Longrightarrow> link_at_tail q b = q @ [b]"
  by (induction q b rule: link_at_tail.induct) auto

lemma hops_to_tail_length: "q \<noteq> [] \<Longrightarrow> hops_to_tail q = int (length q) - 1"
  by (induction q rule: hops_to_tail.induct) auto

lemma uint_of_nat_small: "n < 256 \<Longrightarrow> uint (of_nat n :: uint8) = int n"
  by (simp add: uint_nat unat_of_nat)

lemma queue_inv_new: "queue_inv cfg MicroBitMeshRadio_new"
  by (simp add: queue_inv_def MicroBitMeshRadio_new_def)

lemma queue_inv_queueRxBuf:
  assumes "queue_inv cfg s" "MICROBIT_RADIO_MAXIMUM_RX_BUFFERS cfg = 4"
  shows "queue_inv cfg (snd (queueRxBuf cfg newRxBuf s))"
  using assms
  by (auto simp: queue_inv_def queueRxBuf_def Let_def link_at_tail_append uint_of_nat_small
      split: option.splits)

lemma queue_inv_recv:
  assumes "queue_inv cfg s"
  shows "queue_inv cfg (snd (recv s))"
  using assms
  by (auto simp: queue_inv_def recv_def split: list.splits)

lemma queue_inv_fields:
  assumes "queue_inv cfg s" "rxQueue s1 = rxQueue s" "queueDepth s1 = queueDepth s"
    "rxBuf s = None \<or> rxBuf s1 \<noteq> None"
  shows "queue_inv cfg s1"
  using assms by (auto simp: queue_inv_def)

lemma queue_inv_enable:
  "queue_inv cfg s \<Longrightarrow> queue_inv cfg (snd (enable cfg ble newRxBuf s))"
  by (auto simp: queue_inv_def enable_def setGroup_def Let_def)

lemma queue_inv_disable: "queue_inv cfg s \<Longrightarrow> queue_inv cfg (snd (disable ble s))"
  by (auto simp: queue_inv_def disable_def)

lemma queue_inv_setGroup: "queue_inv cfg s \<Longrightarrow> queue_inv cfg (snd (setGroup ble g s))"
  by (auto simp: queue_inv_def setGroup_def)

lemma queue_inv_setRSSI: "queue_inv cfg s \<Longrightarrow> queue_inv cfg (snd (setRSSI v s))"
  by (auto simp: queue_inv_def setRSSI_def)

lemma queue_inv_setBlockTransmit: "queue_inv cfg s \<Longrightarrow> queue_inv cfg (setBlockTransmit b s)"
  by (auto simp: queue_inv_def setBlockTransmit_def)

lemma queue_inv_compareSeqNo:
  "queue_inv cfg s \<Longrightarrow> compareSeqNo n s = Returns (g, s1) \<Longrightarrow> queue_inv cfg s1"
  by (auto simp: queue_inv_def compareSeqNo_def getRxBuf_def Let_def
      split: option.splits if_splits)

lemma queue_inv_send:
  "queue_inv cfg s \<Longrightarrow> send cfg ble buffer s = Returns (r, b1, s1) \<Longrightarrow> queue_inv cfg s1"
  by (auto simp: queue_inv_def send_def Let_def split: option.splits if_splits)

lemma queue_inv_datagram_send:
  "queue_inv cfg s \<Longrightarrow> datagram_send cfg ble stack buffer len s = Returns (r, b1, s1)
     \<Longrightarrow> queue_inv cfg s1"
  by (auto simp: datagram_send_def split: option.splits if_splits dest: queue_inv_send)

lemma queue_inv_datagram_recv:
  "queue_inv cfg s \<Longrightarrow> datagram_recv buf len s = Returns (r, b1, s1) \<Longrightarrow> queue_inv cfg s1"
  by (auto simp: queue_inv_def datagram_recv_def Let_def
      split: option.splits list.splits if_splits)

lemma queue_inv_dma_receive: "queue_inv cfg s \<Longrightarrow> queue_inv cfg (dma_receive w s)"
  by (auto simp: queue_inv_def dma_receive_def split: option.splits)

lemma queue_inv_datagram_packetReceived:
  "queue_inv cfg s \<Longrightarrow> datagram_packetReceived s = Returns s1 \<Longrightarrow> queue_inv cfg s1"
  by (auto simp: datagram_packetReceived_def Let_def split: prod.splits option.splits if_splits
      dest!: queue_inv_recv [where s = s] intro: queue_inv_fields)

lemma queue_inv_RADIO_IRQ:
  assumes "queue_inv cfg s" "MICROBIT_RADIO_MAXIMUM_RX_BUFFERS cfg = 4"
    "mesh_RADIO_IRQHandler cfg e c r n s = Returns s1"
  shows "queue_inv cfg s1"
  using assms
  by (auto simp: mesh_RADIO_IRQHandler_def Let_def
      split: if_splits option.splits outcome.splits prod.splits
      intro!: queue_inv_setBlockTransmit queue_inv_setRSSI queue_inv_queueRxBuf
      dest: queue_inv_compareSeqNo)

lemma queue_inv_TIMER0_IRQ:
  assumes "queue_inv cfg s" "MICROBIT_RADIO_MAXIMUM_RX_BUFFERS cfg = 4"
  shows "queue_inv cfg (mesh_TIMER0_IRQHandler cfg e n s)"
  using assms
  by (auto simp: mesh_TIMER0_IRQHandler_def
      intro!: queue_inv_setBlockTransmit queue_inv_queueRxBuf)

lemma queue_inv_step:
  assumes "queue_inv cfg s" "MICROBIT_RADIO_MAXIMUM_RX_BUFFERS cfg = 4"
    "step cfg x s = Returns s1"
  shows "queue_inv cfg s1"
proof (cases x)
  case (Call_compareSeqNo n)
  with assms show ?thesis
    by (auto split: outcome.splits dest: queue_inv_compareSeqNo)
next
  case (Call_send ble buffer)
  with assms show ?thesis
    by (auto split: outcome.splits dest: queue_inv_send)
next
  case (Call_datagram_send ble stack buffer len)
  with assms show ?thesis
    by (auto split: outcome.splits dest: queue_inv_datagram_send)
next
  case (Call_datagram_recv buf len)
  with assms show ?thesis
    by (auto split: outcome.splits dest: queue_inv_datagram_recv)
qed (use assms in \<open>auto intro: queue_inv_enable queue_inv_disable queue_inv_setGroup
      queue_inv_setRSSI queue_inv_setBlockTransmit queue_inv_queueRxBuf queue_inv_recv
      queue_inv_datagram_packetReceived
      queue_inv_dma_receive queue_inv_RADIO_IRQ queue_inv_TIMER0_IRQ\<close>)

lemma queue_inv_run:
  assumes "MICROBIT_RADIO_MAXIMUM_RX_BUFFERS cfg = 4"
  shows "queue_inv cfg s \<Longrightarrow> run cfg xs s = Returns s1 \<Longrightarrow> queue_inv cfg s1"
proof (induction xs arbitrary: s)
  case Nil
  then show ?case by simp
next
  case (Cons x xs)
  from Cons.prems(2) obtain s2 where st: "step cfg x s = Returns s2"
    and rest: "run cfg xs s2 = Returns s1"
    by (auto split: outcome.splits)
  from Cons.prems(1) assms st have "queue_inv cfg s2"
    by (rule queue_inv_step)
  then show ?case using rest by (rule Cons.IH)
qed

lemma example_config_bound: "MICROBIT_RADIO_MAXIMUM_RX_BUFFERS example_config = 4"
  by (simp add: example_config_def)

text \<open>
  Claim C2. In every state that a run of the driver reaches from the constructor's state
  (any sequence of \<open>queueRxBuf\<close>, \<open>recv\<close> and the other entry points), with the queue
  bound configured as 4, the field \<open>queueDepth\<close> equals the number of frames linked in the
  receive queue and does not exceed 4.
\<close>

theorem queueDepth_is_queue_length:
  assumes "MICROBIT_RADIO_MAXIMUM_RX_BUFFERS cfg = 4"
    and "run cfg xs MicroBitMeshRadio_new = Returns s"
  shows "uint (queueDepth s) = int (length (rxQueue s)) \<and> uint (queueDepth s) \<le> 4"
proof -
  have "queue_inv cfg s"
    using assms(1) queue_inv_new assms(2) by (rule queue_inv_run)
  then show ?thesis
    using assms(1) by (auto simp: queue_inv_def uint_of_nat_small)
qed

theorem queueDepth_is_queue_length_witness:
  "\<exists>s. run example_config enqueue_dequeue MicroBitMeshRadio_new = Returns s
       \<and> length (rxQueue s) = 1
       \<and> uint (queueDepth s) = int (length (rxQueue s)) \<and> uint (queueDepth s) \<le> 4"
proof -
  have "\<exists>s. run example_config enqueue_dequeue MicroBitMeshRadio_new = Returns s
          \<and> length (rxQueue s) = 1"
    by (simp add: enqueue_dequeue_def example_config_def MicroBitMeshRadio_new_def enable_def
        setGroup_def queueRxBuf_def recv_def getRSSI_def Let_def)
  then obtain s where r: "run example_config enqueue_dequeue MicroBitMeshRadio_new = Returns s"
    and l: "length (rxQueue s) = 1"
    by blast
  from queueDepth_is_queue_length [OF example_config_bound r] r l show ?thesis
    by blast
qed

text \<open>
  Claim C3. In every state that a run reaches in which the receive queue already holds
  its maximum of 4 frames, \<open>queueRxBuf\<close> returns \<open>DEVICE_NO_RESOURCES\<close> and leaves the whole
  state as it was: the queue, \<open>queueDepth\<close> and the active buffer are unchanged, whatever
  the allocator would have returned. The call is a total function: it does not wait.
\<close>

theorem queueRxBuf_full_queue:
  assumes "MICROBIT_RADIO_MAXIMUM_RX_BUFFERS cfg = 4"
    and "run cfg xs MicroBitMeshRadio_new = Returns s"
    and "length (rxQueue s) = 4"
  shows "queueRxBuf cfg newRxBuf s = (DEVICE_NO_RESOURCES, s)"
proof -
  have "queue_inv cfg s"
    using assms(1) queue_inv_new assms(2) by (rule queue_inv_run)
  with assms(3) have d: "queueDepth s = 4" and b: "rxBuf s \<noteq> None"
    by (auto simp: queue_inv_def)
  from b obtain a f where "rxBuf s = Some (a, f)"
    by auto
  with d assms(1) show ?thesis
    by (simp add: queueRxBuf_def)
qed

theorem queueRxBuf_full_queue_witness:
  "\<exists>s. run example_config four_queued MicroBitMeshRadio_new = Returns s
       \<and> length (rxQueue s) = 4
       \<and> queueRxBuf example_config (Some 6) s = (DEVICE_NO_RESOURCES, s)"
proof -
  have "\<exists>s. run example_config four_queued MicroBitMeshRadio_new = Returns s
          \<and> length (rxQueue s) = 4"
    by (simp add: four_queued_def example_config_def MicroBitMeshRadio_new_def enable_def
        setGroup_def queueRxBuf_def getRSSI_def Let_def)
  then obtain s where r: "run example_config four_queued MicroBitMeshRadio_new = Returns s"
    and l: "length (rxQueue s) = 4"
    by blast
  from queueRxBuf_full_queue [OF example_config_bound r l] r l show ?thesis
    by blast
qed

text \<open>
  Claim C5. When \<open>queueRxBuf\<close> reaches the allocation of the replacement buffer (there is
  an active buffer and the queue is below its bound) and the allocation fails, it
  returns \<open>DEVICE_NO_RESOURCES\<close>; the state differs from the one before only in the
  \<^verbatim>\<open>rssi\<close> field stored in the active buffer, so the queue, \<open>queueDepth\<close> and the log of
  released pointers are unchanged and the active buffer is still the one at address \<open>a\<close>.
  A following call in which the allocation succeeds appends that buffer to the queue,
  counts it and makes the new buffer the active one.
\<close>

theorem queueRxBuf_allocation_fails:
  assumes "rxBuf s = Some (a, f)"
    and "uint (queueDepth s) < int (MICROBIT_RADIO_MAXIMUM_RX_BUFFERS cfg)"
  shows "queueRxBuf cfg None s =
           (DEVICE_NO_RESOURCES, s\<lparr>rxBuf := Some (a, f\<lparr>fb_rssi := getRSSI cfg s\<rparr>)\<rparr>)
       \<and> queueRxBuf cfg (Some b) (s\<lparr>rxBuf := Some (a, f\<lparr>fb_rssi := getRSSI cfg s\<rparr>)\<rparr>) =
           (DEVICE_OK,
            s\<lparr>rxQueue := rxQueue s @ [(a, f\<lparr>fb_rssi := getRSSI cfg s\<rparr>)],
              queueDepth := queueDepth s + 1,
              rxBuf := Some (b, new_SequencedFrameBuffer cfg)\<rparr>)"
  using assms
  by (auto simp: queueRxBuf_def Let_def getRSSI_def link_at_tail_append)

theorem queueRxBuf_allocation_fails_witness:
  "rxBuf enabled_radio = Some (1, new_SequencedFrameBuffer example_config)
   \<and> uint (queueDepth enabled_radio) < int (MICROBIT_RADIO_MAXIMUM_RX_BUFFERS example_config)
   \<and> queueRxBuf example_config None enabled_radio = (DEVICE_NO_RESOURCES, enabled_radio)
   \<and> fst (queueRxBuf example_config (Some 2) enabled_radio) = DEVICE_OK
   \<and> rxQueue (snd (queueRxBuf example_config (Some 2) enabled_radio))
       = [(1, new_SequencedFrameBuffer example_config)]"
proof -
  have b: "rxBuf enabled_radio = Some (1, new_SequencedFrameBuffer example_config)"
    by (simp add: enabled_radio_def enable_def setGroup_def MicroBitMeshRadio_new_def Let_def)
  have d: "uint (queueDepth enabled_radio)
             < int (MICROBIT_RADIO_MAXIMUM_RX_BUFFERS example_config)"
    by (simp add: enabled_radio_def enable_def setGroup_def MicroBitMeshRadio_new_def Let_def
        example_config_def)
  have r: "getRSSI example_config enabled_radio = 0"
    by (simp add: enabled_radio_def enable_def setGroup_def MicroBitMeshRadio_new_def Let_def
        getRSSI_def)
  have q: "rxQueue enabled_radio = []"
    by (simp add: enabled_radio_def enable_def setGroup_def MicroBitMeshRadio_new_def Let_def)
  have z: "(new_SequencedFrameBuffer example_config)\<lparr>fb_rssi := 0\<rparr>
             = new_SequencedFrameBuffer example_config"
    by (simp add: new_SequencedFrameBuffer_def)
  have e: "enabled_radio\<lparr>rxBuf := Some (1, new_SequencedFrameBuffer example_config)\<rparr>
             = enabled_radio"
    by (subst b [symmetric]) simp
  note t = queueRxBuf_allocation_fails [OF b d, of 2, unfolded r z e]
  from t b d q show ?thesis
    by simp
qed

section \<open>The datagram service: header accounting\<close>

lemma uint_len_plus_3:
  assumes "0 \<le> len" "len \<le> 252"
  shows "uint (word_of_int (len + MICROBIT_MESH_RADIO_HEADER_SIZE - 1) :: uint8) = len + 3"
proof -
  have "uint (word_of_int (len + 3) :: uint8) = (len + 3) mod 2 ^ LENGTH(8)"
    by (rule uint_word_of_int)
  also have "\<dots> = len + 3"
    using assms by simp
  finally have "uint (word_of_int (len + 3) :: uint8) = len + 3" .
  moreover have "len + MICROBIT_MESH_RADIO_HEADER_SIZE - 1 = len + 3"
    by (simp add: MICROBIT_MESH_RADIO_HEADER_SIZE_def)
  ultimately show ?thesis
    by (simp only:)
qed

lemma datagram_send_frame_Some:
  assumes "0 \<le> len" "nat len \<le> length bs" "nat len \<le> length (fb_payload stack)"
  shows "datagram_send_frame stack bs len =
     Some (stack\<lparr>fb_length := word_of_int (len + MICROBIT_MESH_RADIO_HEADER_SIZE - 1),
                 fb_version := 1, fb_group := 0,
                 fb_protocol := MICROBIT_MESH_RADIO_PROTOCOL_DATAGRAM,
                 fb_payload := take (nat len) bs @ drop (nat len) (fb_payload stack)\<rparr>)"
  using assms by (simp add: datagram_send_frame_def memcpy_def)

text \<open>
  The length that \<open>send\<close> stamps is the payload length plus 3, for every payload that
  fits the payload array.
\<close>

lemma datagram_send_frame_length:
  assumes "0 \<le> len" "len \<le> 252" "datagram_send_frame stack bs len = Some f"
  shows "uint (fb_length f) = len + 3"
proof -
  define w :: uint8 where "w = word_of_int (len + MICROBIT_MESH_RADIO_HEADER_SIZE - 1)"
  have "uint w = len + 3"
    unfolding w_def using assms(1,2) by (rule uint_len_plus_3)
  moreover have "fb_length f = w"
    using assms(3) unfolding w_def
    by (auto simp: datagram_send_frame_def split: option.splits)
  ultimately show ?thesis
    by simp
qed

text \<open>
  Claim C4. The claim is that \<open>send\<close> stamps the length field with \<open>4 + n\<close>, the four header
  bytes after the length field plus the payload, so that a datagram of 10 bytes has
  length 14. The code stamps \<^verbatim>\<open>len + MICROBIT_MESH_RADIO_HEADER_SIZE - 1\<close>, which is
  \<open>n + 3\<close>: sending the 10 bytes \<open>ten_bytes\<close> on an enabled radio returns \<open>DEVICE_OK\<close> with a
  frame whose length field is 13, one less than the bytes that follow the length field
  in \<^verbatim>\<open>SequencedFrameBuffer\<close>.
\<close>

theorem datagram_send_ten_bytes_length_13:
  "\<exists>f s1. datagram_send example_config False (new_SequencedFrameBuffer example_config)
             (Some ten_bytes) 10 enabled_radio = Returns (DEVICE_OK, Some f, s1)
          \<and> take 10 (fb_payload f) = ten_bytes
          \<and> uint (fb_length f) = 13 \<and> uint (fb_length f) \<noteq> 4 + 10"
  by (simp add: datagram_send_frame_def memcpy_def new_SequencedFrameBuffer_def
      example_config_def ten_bytes_def MICROBIT_MESH_RADIO_HEADER_SIZE_def enabled_radio_def
      datagram_send_def send_def enable_def setGroup_def MicroBitMeshRadio_new_def Let_def)

text \<open>
  Claim C7. Round trip through the header accounting of the datagram service. For every
  byte sequence \<open>bs\<close> that fits the payload array (of at most 250 bytes), the frame that
  \<open>send\<close> builds from \<open>bs\<close>, whatever sequence number and signal strength are stamped on
  it afterwards, is read back by \<open>recv\<close> into a caller's buffer of at least that size as
  exactly the bytes \<open>bs\<close>, and \<open>recv\<close> returns their number. The frame is taken from the
  queue and released.
\<close>

theorem datagram_roundtrip:
  assumes "length (fb_payload stack) = MICROBIT_RADIO_MAX_PACKET_SIZE cfg"
    and "MICROBIT_RADIO_MAX_PACKET_SIZE cfg \<le> 250"
    and "length bs \<le> MICROBIT_RADIO_MAX_PACKET_SIZE cfg"
    and "int (length bs) \<le> len" and "len \<le> int (length buf)"
  shows "\<exists>f. datagram_send_frame stack bs (int (length bs)) = Some f
           \<and> datagram_recv (Some buf) len
               (s\<lparr>datagram_rxQueue := (a, f\<lparr>fb_seqNo := q, fb_rssi := r\<rparr>) # rest\<rparr>)
             = Returns (Inr (int (length bs)), Some (bs @ drop (length bs) buf),
                        s\<lparr>datagram_rxQueue := rest, deleted := deleted s @ [a]\<rparr>)"
proof -
  define w :: uint8
    where "w = word_of_int (int (length bs) + MICROBIT_MESH_RADIO_HEADER_SIZE - 1)"
  define f where "f = stack\<lparr>fb_length := w, fb_version := 1, fb_group := 0,
                  fb_protocol := MICROBIT_MESH_RADIO_PROTOCOL_DATAGRAM,
                  fb_payload := bs @ drop (length bs) (fb_payload stack)\<rparr>"
  have "datagram_send_frame stack bs (int (length bs)) =
          Some (stack\<lparr>fb_length := w, fb_version := 1, fb_group := 0,
                  fb_protocol := MICROBIT_MESH_RADIO_PROTOCOL_DATAGRAM,
                  fb_payload := take (nat (int (length bs))) bs
                     @ drop (nat (int (length bs))) (fb_payload stack)\<rparr>)"
    unfolding w_def using assms(1,3) by (intro datagram_send_frame_Some) simp_all
  then have c: "datagram_send_frame stack bs (int (length bs)) = Some f"
    by (simp add: f_def)
  have "int (length bs) \<le> 252"
    using assms(2,3) by simp
  then have "uint w = int (length bs) + 3"
    unfolding w_def by (intro uint_len_plus_3) simp_all
  then have l: "uint (fb_length f) = int (length bs) + 3"
    by (simp add: f_def)
  have m: "min len (uint (fb_length f) - (MICROBIT_MESH_RADIO_HEADER_SIZE - 1)) = int (length bs)"
    using l assms(4) by (simp add: MICROBIT_MESH_RADIO_HEADER_SIZE_def)
  have p: "memcpy buf (fb_payload f) (int (length bs)) = Some (bs @ drop (length bs) buf)"
    using assms(1,3,4,5) by (simp add: memcpy_def f_def)
  have "datagram_recv (Some buf) len
          (s\<lparr>datagram_rxQueue := (a, f\<lparr>fb_seqNo := q, fb_rssi := r\<rparr>) # rest\<rparr>)
        = Returns (Inr (int (length bs)), Some (bs @ drop (length bs) buf),
                   s\<lparr>datagram_rxQueue := rest, deleted := deleted s @ [a]\<rparr>)"
    using assms(4) m p by (simp add: datagram_recv_def Let_def)
  with c show ?thesis
    by blast
qed

theorem datagram_roundtrip_witness:
  "length (fb_payload (new_SequencedFrameBuffer example_config))
     = MICROBIT_RADIO_MAX_PACKET_SIZE example_config
   \<and> MICROBIT_RADIO_MAX_PACKET_SIZE example_config \<le> 250
   \<and> length ten_bytes \<le> MICROBIT_RADIO_MAX_PACKET_SIZE example_config
   \<and> int (length ten_bytes) \<le> 16 \<and> (16 :: int) \<le> int (length (replicate 16 (0 :: uint8)))
   \<and> (\<exists>f. datagram_send_frame (new_SequencedFrameBuffer example_config) ten_bytes 10 = Some f
         \<and> datagram_recv (Some (replicate 16 0)) 16
             (enabled_radio\<lparr>datagram_rxQueue := [(2, f\<lparr>fb_seqNo := 9, fb_rssi := - 50\<rparr>)]\<rparr>)
           = Returns (Inr 10, Some (ten_bytes @ replicate 6 0),
                enabled_radio\<lparr>datagram_rxQueue := [],
                              deleted := deleted enabled_radio @ [2]\<rparr>))"
proof -
  have h1: "length (fb_payload (new_SequencedFrameBuffer example_config))
              = MICROBIT_RADIO_MAX_PACKET_SIZE example_config"
    by (simp add: new_SequencedFrameBuffer_def)
  have h2: "MICROBIT_RADIO_MAX_PACKET_SIZE example_config \<le> 250"
    by (simp add: example_config_def)
  have h3: "length ten_bytes \<le> MICROBIT_RADIO_MAX_PACKET_SIZE example_config"
    by (simp add: example_config_def ten_bytes_def)
  have h4: "int (length ten_bytes) \<le> 16"
    by (simp add: ten_bytes_def)
  have h5: "(16 :: int) \<le> int (length (replicate 16 (0 :: uint8)))"
    by simp
  have n: "int (length ten_bytes) = 10" "length ten_bytes = 10"
    by (simp_all add: ten_bytes_def)
  from datagram_roundtrip [OF h1 h2 h3 h4 h5,
      where s = enabled_radio and a = 2 and q = 9 and r = "- 50" and rest = "[]"]
    h1 h2 h3 h4 h5
  show ?thesis
    by (simp add: n)
qed

text \<open>
  Claim C9. For every call of the datagram service's \<open>send\<close> with a valid buffer and a
  length within the payload array, on a radio whose group has just been set to any
  \<open>g\<close>, the frame that is built has version 1, group 0 and protocol 1: the group
  configured on the device stays \<open>g\<close> and is not copied into the frame. This holds for
  the frame as built and for the frame as the call leaves it, whatever the driver's
  \<open>send\<close> returns; the call fails to return only when the transmitter is blocked.
\<close>

theorem datagram_send_header_fields:
  assumes "0 \<le> len" and "len \<le> int (MICROBIT_RADIO_MAX_PACKET_SIZE cfg)"
    and "nat len \<le> length bs"
    and "length (fb_payload stack) = MICROBIT_RADIO_MAX_PACKET_SIZE cfg"
  shows "(\<exists>f. datagram_send_frame stack bs len = Some f
            \<and> fb_version f = 1 \<and> fb_group f = 0 \<and> fb_protocol f = 1)
       \<and> (case datagram_send cfg ble stack (Some bs) len (snd (setGroup False g s)) of
            Returns (r, buf, s1) \<Rightarrow>
              group s1 = g \<and>
              (\<exists>f. buf = Some f \<and> fb_version f = 1 \<and> fb_group f = 0 \<and> fb_protocol f = 1)
          | Fault \<Rightarrow> False
          | Spins \<Rightarrow> blockTransmit s)"
proof -
  have c: "datagram_send_frame stack bs len =
     Some (stack\<lparr>fb_length := word_of_int (len + MICROBIT_MESH_RADIO_HEADER_SIZE - 1),
                 fb_version := 1, fb_group := 0,
                 fb_protocol := MICROBIT_MESH_RADIO_PROTOCOL_DATAGRAM,
                 fb_payload := take (nat len) bs @ drop (nat len) (fb_payload stack)\<rparr>)"
    using assms by (intro datagram_send_frame_Some) simp_all
  have g: "len \<le> int (MICROBIT_RADIO_MAX_PACKET_SIZE cfg) + MICROBIT_MESH_RADIO_HEADER_SIZE - 1"
    using assms(2) by (simp add: MICROBIT_MESH_RADIO_HEADER_SIZE_def)
  show ?thesis
    using assms(1) g
    by (simp add: c datagram_send_def send_def setGroup_def Let_def
        MICROBIT_MESH_RADIO_PROTOCOL_DATAGRAM_def)
qed

theorem datagram_send_header_fields_witness:
  "(0 :: int) \<le> 10 \<and> 10 \<le> int (MICROBIT_RADIO_MAX_PACKET_SIZE example_config)
   \<and> nat 10 \<le> length ten_bytes
   \<and> length (fb_payload (new_SequencedFrameBuffer example_config))
       = MICROBIT_RADIO_MAX_PACKET_SIZE example_config
   \<and> (\<exists>r f s1. datagram_send example_config False (new_SequencedFrameBuffer example_config)
                  (Some ten_bytes) 10 (snd (setGroup False 42 enabled_radio))
                = Returns (r, Some f, s1)
         \<and> group s1 = 42 \<and> fb_version f = 1 \<and> fb_group f = 0 \<and> fb_protocol f = 1)"
proof -
  have h1: "(0 :: int) \<le> 10"
    by simp
  have h2: "10 \<le> int (MICROBIT_RADIO_MAX_PACKET_SIZE example_config)"
    by (simp add: example_config_def)
  have h3: "nat 10 \<le> length ten_bytes"
    by (simp add: ten_bytes_def)
  have h4: "length (fb_payload (new_SequencedFrameBuffer example_config))
              = MICROBIT_RADIO_MAX_PACKET_SIZE example_config"
    by (simp add: new_SequencedFrameBuffer_def)
  have nb: "\<not> blockTransmit enabled_radio"
    by (simp add: enabled_radio_def enable_def setGroup_def MicroBitMeshRadio_new_def Let_def)
  from datagram_send_header_fields [OF h1 h2 h3 h4,
      where ble = False and g = 42 and s = enabled_radio] nb
  have "\<exists>r f s1. datagram_send example_config False (new_SequencedFrameBuffer example_config)
                  (Some ten_bytes) 10 (snd (setGroup False 42 enabled_radio))
                = Returns (r, Some f, s1)
         \<and> group s1 = 42 \<and> fb_version f = 1 \<and> fb_group f = 0 \<and> fb_protocol f = 1"
    by (auto split: outcome.splits)
  with h1 h2 h3 h4 show ?thesis
    by blast
qed




text \<open>What \<open>packetReceived\<close> does with the frame at the head of the radio's queue.\<close>

lemma datagram_packetReceived_cases:
  assumes "rxQueue s = packet # rest"
  shows "datagram_packetReceived s =
     Returns (if length (datagram_rxQueue s) \<le> 4
        then s\<lparr>rxQueue := rest, queueDepth := queueDepth s - 1,
               datagram_rxQueue := datagram_rxQueue s @ [packet],
               events := events s @ [RADIO_EVT_DATAGRAM]\<rparr>
        else s\<lparr>rxQueue := rest, queueDepth := queueDepth s - 1,
               deleted := deleted s @ [fst packet]\<rparr>)"
  using assms
  by (auto simp: datagram_packetReceived_def recv_def Let_def link_at_tail_append
      hops_to_tail_length MICROBIT_MESH_RADIO_MAXIMUM_RX_BUFFERS_def)

text \<open>
  Claim C6. The claim is that the datagram service's queue never holds more than 4
  frames: \<open>packetReceived\<close> appends below 4 and drops the arrival at 4. The code counts
  the links it follows to the last node, one less than the frames queued, and compares
  that count with 4: after five datagrams have arrived on a freshly enabled radio, each
  handed over before the next, the queue holds all five (addresses 1 to 5) and nothing
  has been released; only the sixth arrival (address 6) is released.
\<close>

theorem datagram_queue_holds_five:
  "\<exists>s. run example_config five_arrivals MicroBitMeshRadio_new = Returns s
       \<and> map fst (datagram_rxQueue s) = [1, 2, 3, 4, 5] \<and> deleted s = []
       \<and> (\<exists>s1. run example_config sixth_arrival s = Returns s1
              \<and> map fst (datagram_rxQueue s1) = [1, 2, 3, 4, 5] \<and> deleted s1 = [6])"
  by (simp add: five_arrivals_def sixth_arrival_def example_config_def MicroBitMeshRadio_new_def
      enable_def setGroup_def queueRxBuf_def getRSSI_def recv_def Let_def dma_receive_def
      mesh_TIMER0_IRQHandler_def setBlockTransmit_def wire_frame_def
      new_SequencedFrameBuffer_def datagram_packetReceived_def
      MICROBIT_MESH_RADIO_MAXIMUM_RX_BUFFERS_def)

section \<open>Dispatch: progress of the idle loop\<close>






section \<open>The sequence filter\<close>

text \<open>
  \<open>compareSeqNo\<close> accepts exactly the candidates above the sequence number stored in the
  active buffer; it writes \<open>currentSeqNo\<close> and never the active buffer.
\<close>

lemma compareSeqNo_accepts_iff:
  "rxBuf s = Some (a, f) \<Longrightarrow>
     compareSeqNo n s
       = Returns (uint (fb_seqNo f) < n, if uint (fb_seqNo f) < n then s\<lparr>currentSeqNo := n\<rparr> else s)"
  by (simp add: compareSeqNo_def getRxBuf_def)

lemma compareSeqNo_keeps_rxBuf: "compareSeqNo n s = Returns (g, s1) \<Longrightarrow> rxBuf s1 = rxBuf s"
  by (auto simp: compareSeqNo_def getRxBuf_def Let_def split: option.splits if_splits)

text \<open>
  The interrupt handler passes the sequence number of the active buffer as the
  candidate: a frame with a good checksum is compared with itself and rejected.
\<close>

lemma mesh_RADIO_IRQHandler_good_crc:
  "rxBuf s = Some (a, f) \<Longrightarrow> mesh_RADIO_IRQHandler cfg True 1 sample newRxBuf s = Returns s"
  by (simp add: mesh_RADIO_IRQHandler_def getRxBuf_def compareSeqNo_def)

text \<open>
  Claim C1. The claim is that the filter accepts a candidate exactly when it is above
  the last accepted value, that an acceptance makes the candidate the new reference,
  and that therefore accepted sequence numbers strictly increase. In the code the
  reference of the comparison is the sequence number in the active buffer, and an
  acceptance stores the candidate in \<open>currentSeqNo\<close>, which the comparison does not read.
  On an enabled radio whose active buffer holds sequence number 0, the candidate 5 is
  accepted, the reference is still 0, and the candidate 4 is accepted next. In the
  interrupt handler the candidate is read from the active buffer itself: a frame with
  sequence number 5 that the DMA has stored there, with a good checksum, is rejected
  (the state is unchanged, nothing is queued, the transmitter is not blocked).
\<close>

theorem compareSeqNo_accepts_4_after_5:
  "compareSeqNo 5 enabled_radio = Returns (True, enabled_radio\<lparr>currentSeqNo := 5\<rparr>)
   \<and> map_option (fb_seqNo \<circ> snd) (rxBuf (enabled_radio\<lparr>currentSeqNo := 5\<rparr>)) = Some 0
   \<and> compareSeqNo 4 (enabled_radio\<lparr>currentSeqNo := 5\<rparr>)
       = Returns (True, enabled_radio\<lparr>currentSeqNo := 4\<rparr>)
   \<and> mesh_RADIO_IRQHandler example_config True 1 40 (Some 2)
        (dma_receive (wire_frame 1 5) enabled_radio)
       = Returns (dma_receive (wire_frame 1 5) enabled_radio)
   \<and> rxQueue (dma_receive (wire_frame 1 5) enabled_radio) = []
   \<and> \<not> blockTransmit (dma_receive (wire_frame 1 5) enabled_radio)"
  by (simp add: enabled_radio_def enable_def setGroup_def MicroBitMeshRadio_new_def Let_def
      compareSeqNo_def getRxBuf_def new_SequencedFrameBuffer_def example_config_def
      mesh_RADIO_IRQHandler_def dma_receive_def wire_frame_def)

end
